theory Spec2Isabelle
  imports Main "HOL-Library.Word"
begin

section \<open>The terminal window-size helper\<close>

text \<open>
  The program is one C function,
  \<^verbatim>\<open>
  int terminal_set_winsize(int fd, const struct winsize *ws) {
    return ioctl(fd, TIOCSWINSZ, ws);
  }
  \<close>
  It is embedded by explicit state passing. Everything a C call can observe or change is
  a value of type \<open>process\<close>; the operating system behind \<open>ioctl\<close> is not part of the
  program and is a parameter of every definition.
\<close>

subsection \<open>Data\<close>

text \<open>C's \<open>int\<close>, \<open>unsigned long\<close> and pointers, at their widths on an LP64 platform.\<close>

type_synonym c_int = "32 word"
type_synonym c_ulong = "64 word"
type_synonym addr = "64 word"

text \<open>\<open>struct winsize\<close> of \<open>sys/ioctl.h\<close>: four \<open>unsigned short\<close> fields.\<close>

record winsize =
  ws_row :: "16 word"
  ws_col :: "16 word"
  ws_xpixel :: "16 word"
  ws_ypixel :: "16 word"

text \<open>
  What the control call may read and write: the caller's memory (which addresses hold a
  \<open>struct winsize\<close>, and its contents; the null pointer and unmapped addresses hold
  none), the thread's \<open>errno\<close>, and the state of the operating system, of a type
  \<open>'k\<close> that the program knows nothing about.
\<close>

record 'k machine =
  memory :: "addr \<rightharpoonup> winsize"
  errno :: c_int
  kernel :: 'k

text \<open>One \<open>ioctl(fd, request, arg)\<close> as it crosses into the operating system.\<close>

datatype control_call = Ioctl_call c_int c_ulong addr

text \<open>
  The state of the running process: the machine, and the control calls issued so far
  (a history kept by the model, so that the number and the arguments of the calls a
  function makes can be stated).
\<close>

record 'k process =
  machine :: "'k machine"
  issued :: "control_call list"

subsection \<open>The control call\<close>

text \<open>
  The operating system's side of \<open>ioctl\<close>: from the machine, the descriptor, the request
  code and the argument pointer to the \<open>int\<close> it returns and the machine it leaves. It
  is free to fail, to set \<open>errno\<close>, to change its own state and to write to memory.
\<close>

type_synonym 'k ioctl_impl = "'k machine \<Rightarrow> c_int \<Rightarrow> c_ulong \<Rightarrow> addr \<Rightarrow> c_int \<times> 'k machine"

text \<open>\<open>ioctl\<close> as the program calls it: one call is issued and its outcome is returned.\<close>

definition ioctl ::
  "'k ioctl_impl \<Rightarrow> 'k process \<Rightarrow> c_int \<Rightarrow> c_ulong \<Rightarrow> addr \<Rightarrow> c_int \<times> 'k process" where
  "ioctl impl s fd request arg =
     (case impl (machine s) fd request arg of
        (r, m') \<Rightarrow> (r, \<lparr>machine = m', issued = issued s @ [Ioctl_call fd request arg]\<rparr>))"

subsection \<open>The helper\<close>

text \<open>
  \<open>TIOCSWINSZ\<close> is a macro of the platform's \<open>sys/ioctl.h\<close>; its value is a parameter.
  The pointer \<open>ws\<close> is passed on as an address: the function never reads what it
  points to.
\<close>

definition terminal_set_winsize ::
  "'k ioctl_impl \<Rightarrow> c_ulong \<Rightarrow> 'k process \<Rightarrow> c_int \<Rightarrow> addr \<Rightarrow> c_int \<times> 'k process" where
  "terminal_set_winsize impl TIOCSWINSZ s fd ws = ioctl impl s fd TIOCSWINSZ ws"

subsection \<open>An example environment\<close>

text \<open>
  The theorems below hold for every \<open>ioctl_impl\<close>. To exercise them on concrete inputs
  an example is fixed here; it stands for no particular operating system. Its state maps
  each open terminal descriptor to the window size recorded for it. A call on a
  descriptor that is not open fails with \<open>EBADF\<close>, one whose argument is not readable
  fails with \<open>EFAULT\<close>, and any other call records the geometry read from the argument.
\<close>

definition EBADF :: c_int where
  "EBADF = 9"

definition EFAULT :: c_int where
  "EFAULT = 14"

definition example_ioctl :: "(c_int \<rightharpoonup> winsize) ioctl_impl" where
  "example_ioctl m fd request arg =
     (case kernel m fd of
        None \<Rightarrow> (- 1, m\<lparr>errno := EBADF\<rparr>)
      | Some old \<Rightarrow>
          (case memory m arg of
             None \<Rightarrow> (- 1, m\<lparr>errno := EFAULT\<rparr>)
           | Some g \<Rightarrow> (0, m\<lparr>kernel := (kernel m)(fd \<mapsto> g)\<rparr>)))"

text \<open>
  A process with descriptor 3 open on a terminal of unknown size, a \<open>struct winsize\<close>
  of 24 rows and 80 columns at address 4096, and no call issued yet.
\<close>

definition example_geometry :: winsize where
  "example_geometry = \<lparr>ws_row = 24, ws_col = 80, ws_xpixel = 0, ws_ypixel = 0\<rparr>"

definition example_process :: "(c_int \<rightharpoonup> winsize) process" where
  "example_process =
     \<lparr>machine =
        \<lparr>memory = [4096 \<mapsto> example_geometry],
         errno = 0,
         kernel = [3 \<mapsto> \<lparr>ws_row = 0, ws_col = 0, ws_xpixel = 0, ws_ypixel = 0\<rparr>]\<rparr>,
      issued = []\<rparr>"

text \<open>
  The same process after it has really made an earlier call through the helper, on
  descriptor 5, which is not open: the call failed and left its code in \<open>errno\<close>.
\<close>

definition example_process_later :: "(c_int \<rightharpoonup> winsize) process" where
  "example_process_later = snd (terminal_set_winsize example_ioctl 21524 example_process 5 4096)"

subsection \<open>What the operating system looks at\<close>

text \<open>
  A control call is answered from the operating system's state, the descriptor, the
  request and the structure its argument points to; the operating system does not look
  at \<open>errno\<close>, at the rest of the caller's memory or at the history of the process.
  For an \<open>ioctl_impl\<close> this reads: on two machines with the same operating-system
  state and the same structure at the argument, the call returns the same value, leaves
  the same operating-system state and, when it fails (returns \<open>-1\<close>), the same code.
\<close>

definition answers_from_os_state :: "'k ioctl_impl \<Rightarrow> bool" where
  "answers_from_os_state impl \<longleftrightarrow>
     (\<forall>m1 m2 fd request arg.
        kernel m1 = kernel m2 \<and> memory m1 arg = memory m2 arg \<longrightarrow>
          fst (impl m1 fd request arg) = fst (impl m2 fd request arg)
          \<and> kernel (snd (impl m1 fd request arg)) = kernel (snd (impl m2 fd request arg))
          \<and> (fst (impl m1 fd request arg) = - 1 \<longrightarrow>
                errno (snd (impl m1 fd request arg)) = errno (snd (impl m2 fd request arg))))"

section \<open>The helper is the control call\<close>

text \<open>
  C6. The helper checks neither the descriptor nor the geometry: as a function of the
  process state, the descriptor and the pointer, it is the single control call with the
  window-size-set request on the same arguments, for all of them.
\<close>

theorem terminal_set_winsize_is_ioctl:
  "terminal_set_winsize impl TIOCSWINSZ = (\<lambda>s fd ws. ioctl impl s fd TIOCSWINSZ ws)"
  by (rule ext)+ (simp only: terminal_set_winsize_def)

text \<open>
  Hence whatever holds of the outcome of the control call holds of the outcome of the
  helper. What the control call does to a terminal (which descriptors it accepts, what
  it records, whom it notifies) is the operating system's part and is not fixed by the
  program.
\<close>

lemma control_call_property_transfers:
  "P (ioctl impl s fd TIOCSWINSZ ws) \<Longrightarrow> P (terminal_set_winsize impl TIOCSWINSZ s fd ws)"
  by (simp only: terminal_set_winsize_def)

section \<open>Results and error codes\<close>

text \<open>
  C1. The helper returns the \<open>int\<close> that the control call returned, so it reports
  success exactly when the call succeeded; \<open>errno\<close> after the helper is the value the
  call left, so the error code of a failed call reaches the caller untranslated; and
  exactly one call has been issued, so a failure is neither retried nor recovered from.
\<close>

theorem terminal_set_winsize_error_passthrough:
  "fst (terminal_set_winsize impl TIOCSWINSZ s fd ws) = fst (impl (machine s) fd TIOCSWINSZ ws)
   \<and> errno (machine (snd (terminal_set_winsize impl TIOCSWINSZ s fd ws)))
       = errno (snd (impl (machine s) fd TIOCSWINSZ ws))
   \<and> issued (snd (terminal_set_winsize impl TIOCSWINSZ s fd ws))
       = issued s @ [Ioctl_call fd TIOCSWINSZ ws]"
  by (simp add: terminal_set_winsize_def ioctl_def split: prod.split)

text \<open>
  In the example environment, on descriptor 5, which is not open, the call fails and the
  helper hands on its result and its code.
\<close>

theorem terminal_set_winsize_error_passthrough_witness:
  "fst (terminal_set_winsize example_ioctl 21524 example_process 5 4096) = - 1
   \<and> errno (machine (snd (terminal_set_winsize example_ioctl 21524 example_process 5 4096))) = EBADF
   \<and> issued (snd (terminal_set_winsize example_ioctl 21524 example_process 5 4096))
       = [Ioctl_call 5 21524 4096]"
proof -
  have call: "example_ioctl (machine example_process) 5 21524 4096
      = (- 1, (machine example_process)\<lparr>errno := EBADF\<rparr>)"
    by (simp add: example_ioctl_def example_process_def)
  have none_yet: "issued example_process = []"
    by (simp add: example_process_def)
  from terminal_set_winsize_error_passthrough [of example_ioctl 21524 example_process 5 4096]
  show ?thesis
    by (simp add: call none_yet)
qed

text \<open>
  C10. The helper returns for every descriptor, negative ones included, and for every
  pointer, null and unmapped ones included: it has no branch and reads nothing through
  the pointer. Its return value and the machine it leaves are those of the one control
  call, which is therefore the only place where a failure can come from.
\<close>

theorem terminal_set_winsize_total:
  "\<exists>r m'. impl (machine s) fd TIOCSWINSZ ws = (r, m')
     \<and> terminal_set_winsize impl TIOCSWINSZ s fd ws
         = (r, \<lparr>machine = m', issued = issued s @ [Ioctl_call fd TIOCSWINSZ ws]\<rparr>)"
proof -
  obtain r m' where call: "impl (machine s) fd TIOCSWINSZ ws = (r, m')"
    by (cases "impl (machine s) fd TIOCSWINSZ ws")
  then have "terminal_set_winsize impl TIOCSWINSZ s fd ws
      = (r, \<lparr>machine = m', issued = issued s @ [Ioctl_call fd TIOCSWINSZ ws]\<rparr>)"
    by (simp add: terminal_set_winsize_def ioctl_def)
  with call show ?thesis by blast
qed

text \<open>The same on descriptor \<open>-1\<close> and the null pointer.\<close>

theorem terminal_set_winsize_total_witness:
  "\<exists>r m'. example_ioctl (machine example_process) (- 1) 21524 0 = (r, m')
     \<and> terminal_set_winsize example_ioctl 21524 example_process (- 1) 0
         = (r, \<lparr>machine = m', issued = issued example_process @ [Ioctl_call (- 1) 21524 0]\<rparr>)"
  by (rule terminal_set_winsize_total [of example_ioctl example_process "- 1" 21524 0])

section \<open>No state of its own\<close>

text \<open>The example environment answers from its own state and the argument only.\<close>

lemma example_ioctl_answers_from_os_state: "answers_from_os_state example_ioctl"
  unfolding answers_from_os_state_def
proof (intro allI impI)
  fix m1 m2 :: "(c_int \<rightharpoonup> winsize) machine" and fd request arg
  assume same: "kernel m1 = kernel m2 \<and> memory m1 arg = memory m2 arg"
  show "fst (example_ioctl m1 fd request arg) = fst (example_ioctl m2 fd request arg)
      \<and> kernel (snd (example_ioctl m1 fd request arg))
          = kernel (snd (example_ioctl m2 fd request arg))
      \<and> (fst (example_ioctl m1 fd request arg) = - 1 \<longrightarrow>
            errno (snd (example_ioctl m1 fd request arg))
              = errno (snd (example_ioctl m2 fd request arg)))"
  proof (cases "kernel m2 fd")
    case None
    with same show ?thesis by (simp add: example_ioctl_def)
  next
    case (Some old)
    with same show ?thesis
      by (cases "memory m2 arg") (simp_all add: example_ioctl_def)
  qed
qed

text \<open>
  C7. The helper holds no state across calls. Take two runs on the same descriptor and
  pointer, from process states that agree on the operating-system state and on the
  geometry at \<open>ws\<close> and may differ in everything else the program could keep between
  calls: \<open>errno\<close>, the rest of memory, the calls made before. When the operating system
  answers from its own state and the argument, the two runs return the same value, leave
  the same operating-system state and, on failure, the same error code. And the helper
  writes nothing of its own: in each run the machine it leaves is the machine the one
  control call left.
\<close>

theorem terminal_set_winsize_stateless:
  assumes os: "answers_from_os_state impl"
    and same_os: "kernel (machine s1) = kernel (machine s2)"
    and same_geometry: "memory (machine s1) ws = memory (machine s2) ws"
  shows "fst (terminal_set_winsize impl TIOCSWINSZ s1 fd ws)
           = fst (terminal_set_winsize impl TIOCSWINSZ s2 fd ws)
         \<and> kernel (machine (snd (terminal_set_winsize impl TIOCSWINSZ s1 fd ws)))
           = kernel (machine (snd (terminal_set_winsize impl TIOCSWINSZ s2 fd ws)))
         \<and> (fst (terminal_set_winsize impl TIOCSWINSZ s1 fd ws) = - 1 \<longrightarrow>
              errno (machine (snd (terminal_set_winsize impl TIOCSWINSZ s1 fd ws)))
                = errno (machine (snd (terminal_set_winsize impl TIOCSWINSZ s2 fd ws))))
         \<and> machine (snd (terminal_set_winsize impl TIOCSWINSZ s1 fd ws))
           = snd (impl (machine s1) fd TIOCSWINSZ ws)
         \<and> machine (snd (terminal_set_winsize impl TIOCSWINSZ s2 fd ws))
           = snd (impl (machine s2) fd TIOCSWINSZ ws)"
proof -
  have helper: "fst (terminal_set_winsize impl TIOCSWINSZ s fd ws)
        = fst (impl (machine s) fd TIOCSWINSZ ws)
      \<and> machine (snd (terminal_set_winsize impl TIOCSWINSZ s fd ws))
        = snd (impl (machine s) fd TIOCSWINSZ ws)" for s
    by (simp add: terminal_set_winsize_def ioctl_def split: prod.split)
  from os same_os same_geometry
  have call: "fst (impl (machine s1) fd TIOCSWINSZ ws) = fst (impl (machine s2) fd TIOCSWINSZ ws)
      \<and> kernel (snd (impl (machine s1) fd TIOCSWINSZ ws))
          = kernel (snd (impl (machine s2) fd TIOCSWINSZ ws))
      \<and> (fst (impl (machine s1) fd TIOCSWINSZ ws) = - 1 \<longrightarrow>
            errno (snd (impl (machine s1) fd TIOCSWINSZ ws))
              = errno (snd (impl (machine s2) fd TIOCSWINSZ ws)))"
    unfolding answers_from_os_state_def by blast
  from helper [of s1] helper [of s2] call show ?thesis by simp
qed

text \<open>
  The two runs of the witness start from the example process and from the same process
  after its earlier, failed call: \<open>errno\<close> and the history differ, the operating-system
  state and the geometry do not, and both runs on descriptor 3 succeed and record the
  same geometry. A third run, on the descriptor that is not open, fails in both with the
  same code.
\<close>

theorem terminal_set_winsize_stateless_witness:
  "kernel (machine example_process) = kernel (machine example_process_later)
   \<and> memory (machine example_process) 4096 = memory (machine example_process_later) 4096
   \<and> errno (machine example_process) \<noteq> errno (machine example_process_later)
   \<and> issued example_process \<noteq> issued example_process_later
   \<and> fst (terminal_set_winsize example_ioctl 21524 example_process 3 4096) = 0
   \<and> fst (terminal_set_winsize example_ioctl 21524 example_process_later 3 4096) = 0
   \<and> kernel (machine (snd (terminal_set_winsize example_ioctl 21524 example_process 3 4096)))
     = kernel (machine (snd (terminal_set_winsize example_ioctl 21524 example_process_later 3 4096)))
   \<and> fst (terminal_set_winsize example_ioctl 21524 example_process_later 5 4096) = - 1
   \<and> errno (machine (snd (terminal_set_winsize example_ioctl 21524 example_process 5 4096)))
     = errno (machine (snd (terminal_set_winsize example_ioctl 21524 example_process_later 5 4096)))"
proof -
  have later: "example_process_later
      = \<lparr>machine = (machine example_process)\<lparr>errno := EBADF\<rparr>,
         issued = [Ioctl_call 5 21524 4096]\<rparr>"
    by (simp add: example_process_later_def terminal_set_winsize_def ioctl_def
        example_ioctl_def example_process_def)
  have same_os: "kernel (machine example_process) = kernel (machine example_process_later)"
    by (simp add: later)
  have same_geometry:
    "memory (machine example_process) 4096 = memory (machine example_process_later) 4096"
    by (simp add: later)
  have other_errno: "errno (machine example_process) \<noteq> errno (machine example_process_later)"
    by (simp add: later example_process_def EBADF_def)
  have other_history: "issued example_process \<noteq> issued example_process_later"
    by (simp add: later example_process_def)
  have first: "fst (terminal_set_winsize example_ioctl 21524 example_process 3 4096) = 0"
    by (simp add: terminal_set_winsize_def ioctl_def example_ioctl_def example_process_def)
  have failing: "fst (terminal_set_winsize example_ioctl 21524 example_process 5 4096) = - 1"
    by (simp add: terminal_set_winsize_def ioctl_def example_ioctl_def example_process_def)
  note on_3 = terminal_set_winsize_stateless
    [OF example_ioctl_answers_from_os_state same_os same_geometry, of 21524 3]
  note on_5 = terminal_set_winsize_stateless
    [OF example_ioctl_answers_from_os_state same_os same_geometry, of 21524 5]
  have run_3: "fst (terminal_set_winsize example_ioctl 21524 example_process_later 3 4096) = 0"
    using on_3 [THEN conjunct1] first by simp
  have os_3:
    "kernel (machine (snd (terminal_set_winsize example_ioctl 21524 example_process 3 4096)))
     = kernel (machine (snd (terminal_set_winsize example_ioctl 21524 example_process_later 3 4096)))"
    by (rule on_3 [THEN conjunct2, THEN conjunct1])
  have run_5: "fst (terminal_set_winsize example_ioctl 21524 example_process_later 5 4096) = - 1"
    using on_5 [THEN conjunct1] failing by simp
  have code_5:
    "errno (machine (snd (terminal_set_winsize example_ioctl 21524 example_process 5 4096)))
     = errno (machine (snd (terminal_set_winsize example_ioctl 21524 example_process_later 5 4096)))"
    using on_5 [THEN conjunct2, THEN conjunct2, THEN conjunct1] failing by blast
  from same_os same_geometry other_errno other_history first run_3 os_3 run_5 code_5
  show ?thesis by blast
qed

section \<open>The caller's structure\<close>

text \<open>
  C9. The helper does not write through \<open>ws\<close>: memory after the helper is memory as
  the control call left it. The window-size-set request only reads its argument; when
  the call leaves memory as it was, every \<open>struct winsize\<close> of the caller, the one at
  \<open>ws\<close> included, is unchanged by the helper.
\<close>

theorem terminal_set_winsize_preserves_winsize:
  "memory (machine (snd (terminal_set_winsize impl TIOCSWINSZ s fd ws)))
     = memory (snd (impl (machine s) fd TIOCSWINSZ ws))
   \<and> (memory (snd (impl (machine s) fd TIOCSWINSZ ws)) = memory (machine s)
        \<longrightarrow> memory (machine (snd (terminal_set_winsize impl TIOCSWINSZ s fd ws))) ws
            = memory (machine s) ws)"
  by (simp add: terminal_set_winsize_def ioctl_def split: prod.split)

theorem terminal_set_winsize_preserves_winsize_witness:
  "memory (snd (example_ioctl (machine example_process) 3 21524 4096))
     = memory (machine example_process)
   \<and> fst (terminal_set_winsize example_ioctl 21524 example_process 3 4096) = 0
   \<and> memory (machine (snd (terminal_set_winsize example_ioctl 21524 example_process 3 4096))) 4096
     = Some \<lparr>ws_row = 24, ws_col = 80, ws_xpixel = 0, ws_ypixel = 0\<rparr>"
proof -
  have unwritten: "memory (snd (example_ioctl (machine example_process) 3 21524 4096))
      = memory (machine example_process)"
    by (simp add: example_ioctl_def example_process_def)
  have result: "fst (terminal_set_winsize example_ioctl 21524 example_process 3 4096) = 0"
    by (simp add: terminal_set_winsize_def ioctl_def example_ioctl_def example_process_def)
  have start: "memory (machine example_process) 4096
      = Some \<lparr>ws_row = 24, ws_col = 80, ws_xpixel = 0, ws_ypixel = 0\<rparr>"
    by (simp add: example_process_def example_geometry_def)
  from terminal_set_winsize_preserves_winsize [of example_ioctl 21524 example_process 3 4096]
  have "memory (machine (snd (terminal_set_winsize example_ioctl 21524 example_process 3 4096))) 4096
      = memory (machine example_process) 4096"
    using unwritten by blast
  with unwritten result start show ?thesis by simp
qed

end
